theory Spec2Isabelle
  imports Main "HOL-Library.Word"
begin

unbundle bit_operations_syntax

section \<open>Bytes, errors and panics\<close>

text \<open>
  A Go \<open>byte\<close> is an 8-bit word, a \<open>[]byte\<close> a list of them. Go's \<open>int\<close> is modelled
  as \<open>int\<close>: the only arithmetic on it in \<open>webtty.go\<close> is \<open>bufferSize - 1\<close>, a
  division by 4 and a multiplication by 3, none of which can overflow on a buffer size
  that \<open>make\<close> accepts.
\<close>

type_synonym byte = "8 word"

definition bytes :: "string \<Rightarrow> byte list" where
  \<comment> \<open>\<open>[]byte("...")\<close> of an ASCII literal\<close>
  "bytes s = map of_char s"

text \<open>
  Error values. \<open>errors_New\<close>, \<open>errors_Wrapf\<close> and \<open>errors_Errorf_unknown\<close> are the
  three ways \<open>webtty.go\<close> builds an error; \<open>CorruptInputError\<close> is the one
  \<open>encoding/base64\<close> returns (its byte offset is left out); \<open>External\<close> is an error
  handed back by a collaborator (a connection, \<open>json.Unmarshal\<close>, a foreign decoder).
\<close>

datatype error =
    errors_New string
  | errors_Wrapf error string
  | errors_Errorf_unknown byte
  | CorruptInputError
  | External string
  | ErrSlaveClosed
  | ErrMasterClosed

text \<open>A Go call either returns or panics (a slice bound out of range, a negative \<open>make\<close>).\<close>

datatype 'a go = Panics | Returns 'a

definition slice_to :: "byte list \<Rightarrow> int \<Rightarrow> byte list go" where
  \<comment> \<open>\<open>buf[:n]\<close> on a slice whose capacity is its length\<close>
  "slice_to buf n = (if 0 \<le> n \<and> n \<le> int (length buf) then Returns (take (nat n) buf) else Panics)"

definition go_quot :: "int \<Rightarrow> int \<Rightarrow> int" where
  \<comment> \<open>Go's \<open>/\<close> on integers truncates towards zero\<close>
  "go_quot a b = sgn a * sgn b * (\<bar>a\<bar> div \<bar>b\<bar>)"

section \<open>The standard base64 encoding (\<open>base64.StdEncoding\<close>)\<close>

definition encodeStd :: "byte list" where
  "encodeStd = bytes ''ABCDEFGHIJKLMNOPQRSTUVWXYZabcdefghijklmnopqrstuvwxyz0123456789+/''"

definition encode_tab :: "64 word \<Rightarrow> byte" where
  \<comment> \<open>\<open>enc.encode[v]\<close>\<close>
  "encode_tab v = encodeStd ! unat v"

definition padChar :: byte where
  "padChar = 0x3D"

text \<open>
  \<open>EncodeToString\<close>: three source bytes give four characters; a remainder of two or one
  bytes gives three or two characters and \<open>=\<close> padding.
\<close>

fun EncodeToString :: "byte list \<Rightarrow> byte list" where
  "EncodeToString (a # b # c # rest) =
     (let val = push_bit 16 (ucast a) OR push_bit 8 (ucast b) OR ucast c :: 64 word
      in [encode_tab (drop_bit 18 val AND 0x3F), encode_tab (drop_bit 12 val AND 0x3F),
          encode_tab (drop_bit 6 val AND 0x3F), encode_tab (val AND 0x3F)] @ EncodeToString rest)"
| "EncodeToString [a, b] =
     (let val = push_bit 16 (ucast a) OR push_bit 8 (ucast b) :: 64 word
      in [encode_tab (drop_bit 18 val AND 0x3F), encode_tab (drop_bit 12 val AND 0x3F),
          encode_tab (drop_bit 6 val AND 0x3F), padChar])"
| "EncodeToString [a] =
     (let val = push_bit 16 (ucast a) :: 64 word
      in [encode_tab (drop_bit 18 val AND 0x3F), encode_tab (drop_bit 12 val AND 0x3F),
          padChar, padChar])"
| "EncodeToString [] = []"

text \<open>
  \<open>decodeMap\<close> is filled with \<open>0xFF\<close> and then, for each position \<open>i\<close> of the alphabet,
  \<open>decodeMap[encoder[i]] = i\<close>.
\<close>

fun decodeMap_from :: "byte list \<Rightarrow> byte \<Rightarrow> byte \<Rightarrow> byte" where
  "decodeMap_from [] i c = 0xFF"
| "decodeMap_from (x # xs) i c = (if x = c then i else decodeMap_from xs (i + 1) c)"

definition decodeMap :: "byte \<Rightarrow> byte" where
  "decodeMap c = decodeMap_from encodeStd 0 c"

definition is_newline :: "byte \<Rightarrow> bool" where
  "is_newline c \<longleftrightarrow> c = 0x0A \<or> c = 0x0D"

text \<open>
  The end of \<open>decodeQuantum\<close>: the (up to four) 6-bit values are packed into 24 bits and
  the first \<open>dlen - 1\<close> of the three bytes are written. \<open>dbuf\<close> is a zeroed \<open>[4]byte\<close>,
  so the values not read are 0.
\<close>

definition quantum_bytes :: "byte list \<Rightarrow> nat \<Rightarrow> byte list" where
  "quantum_bytes dbuf dlen =
     (let d = dbuf @ replicate (4 - length dbuf) 0;
          val = push_bit 18 (ucast (d ! 0)) OR push_bit 12 (ucast (d ! 1))
                OR push_bit 6 (ucast (d ! 2)) OR ucast (d ! 3) :: 64 word
      in take (dlen - 1) [ucast (drop_bit 16 val), ucast (drop_bit 8 val), ucast val])"

text \<open>
  After the padding: newlines are skipped, anything left is trailing garbage, reported
  together with the bytes of this quantum.
\<close>

definition finish_quantum :: "byte list \<Rightarrow> byte list \<Rightarrow> byte list \<times> byte list \<times> error option" where
  "finish_quantum dbuf src =
     (let src' = dropWhile is_newline src
      in (src', quantum_bytes dbuf (length dbuf),
          if src' \<noteq> [] then Some CorruptInputError else None))"

text \<open>
  \<open>decodeQuantum\<close> reads one group of four characters. \<open>dbuf\<close> holds the values read so
  far (\<open>j = length dbuf\<close>); the result is the unread input, the bytes written and the
  error. Newlines are skipped, a foreign character is an error, padding is accepted
  after two characters (\<open>==\<close>) or three (\<open>=\<close>), and input that ends inside a group is an
  error since the encoding is padded.
\<close>

fun decodeQuantum :: "byte list \<Rightarrow> byte list \<Rightarrow> byte list \<times> byte list \<times> error option" where
  "decodeQuantum dbuf [] = ([], [], if dbuf = [] then None else Some CorruptInputError)"
| "decodeQuantum dbuf (c # src) =
     (let out = decodeMap c in
      if out \<noteq> 0xFF then
        (if length dbuf = 3 then (src, quantum_bytes (dbuf @ [out]) 4, None)
         else decodeQuantum (dbuf @ [out]) src)
      else if is_newline c then decodeQuantum dbuf src
      else if c \<noteq> padChar then (src, [], Some CorruptInputError)
      else if length dbuf < 2 then (src, [], Some CorruptInputError)
      else if length dbuf = 2 then
        (case dropWhile is_newline src of
           [] \<Rightarrow> ([], [], Some CorruptInputError)
         | c' # src' \<Rightarrow>
             if c' \<noteq> padChar then (c' # src', [], Some CorruptInputError)
             else finish_quantum dbuf src')
      else finish_quantum dbuf src)"

lemma decodeQuantum_length: "length (fst (decodeQuantum dbuf src)) \<le> length src"
proof (induction dbuf src rule: decodeQuantum.induct)
  case (1 dbuf)
  then show ?case by simp
next
  case (2 dbuf c src)
  have dw: "length (dropWhile is_newline src) \<le> length src"
    by (rule length_dropWhile_le)
  have dw2: "\<And>x xs. dropWhile is_newline src = x # xs \<Longrightarrow> length (dropWhile is_newline xs) \<le> length src"
    by (metis dw length_dropWhile_le le_trans length_Cons Suc_leD le_SucI Suc_le_mono)
  from 2 dw dw2 show ?case
    by (auto simp: Let_def finish_quantum_def split: list.splits)
qed

lemma decodeQuantum_shorter:
  assumes "src \<noteq> []"
  shows "length (fst (decodeQuantum dbuf src)) < length src"
proof (cases src)
  case Nil
  with assms show ?thesis by simp
next
  case (Cons c cs)
  have dw: "length (dropWhile is_newline cs) \<le> length cs"
    by (rule length_dropWhile_le)
  have dw2: "\<And>x xs. dropWhile is_newline cs = x # xs \<Longrightarrow> length (dropWhile is_newline xs) \<le> length cs"
    by (metis dw length_dropWhile_le le_trans length_Cons Suc_leD)
  show ?thesis
    using decodeQuantum_length [of "dbuf @ [decodeMap c]" cs] decodeQuantum_length [of dbuf cs] dw dw2
    by (auto simp: Cons Let_def finish_quantum_def le_imp_less_Suc split: list.splits)
qed

text \<open>
  The loop of \<open>Decode\<close>: one quantum after the other until the input is used up or a
  quantum fails. \<open>room\<close> is what is left of \<open>dst\<close>; a quantum that writes past it panics
  (index out of range). The 8- and 4-character fast paths of the library decode the same
  groups and are not modelled apart.
\<close>

function Decode_loop :: "nat \<Rightarrow> byte list \<Rightarrow> (byte list \<times> error option) go" where
  "Decode_loop room src =
     (if src = [] then Returns ([], None)
      else case decodeQuantum [] src of (rest, out, err) \<Rightarrow>
        if room < length out then Panics
        else (case err of
                Some e \<Rightarrow> Returns (out, Some e)
              | None \<Rightarrow> (case Decode_loop (room - length out) rest of
                           Panics \<Rightarrow> Panics
                         | Returns (out', err') \<Rightarrow> Returns (out @ out', err'))))"
  by pat_completeness auto
termination
proof (relation "measure (\<lambda>(room, src). length src)")
  show "wf (measure (\<lambda>(room, src). length src))" by simp
next
  fix room :: nat and src rest out :: "byte list" and y and err :: "error option"
  assume "src \<noteq> []" "(rest, y) = decodeQuantum [] src" "(out, err) = y"
  then show "((room - length out, rest), room, src) \<in> measure (\<lambda>(room, src). length src)"
    using decodeQuantum_shorter [of src "[]"]
    by (metis (no_types, lifting) case_prod_conv fst_conv in_measure)
qed

declare Decode_loop.simps [simp del]

section \<open>Decoders\<close>

text \<open>
  \<open>Decoder\<close> is an interface with one method, \<open>Decode(dst, src []byte) (int, error)\<close>.
  \<open>webtty.go\<close> stores \<open>NullCodec\<close> or \<open>base64.StdEncoding\<close> in it; \<open>OtherDecoder\<close>
  stands for any other implementation, given by what its \<open>Decode\<close> does. The result of
  a call is the count, the contents of \<open>dst\<close> afterwards and the error.
\<close>

datatype Decoder =
    NullCodec
  | StdEncoding
  | OtherDecoder "byte list \<Rightarrow> byte list \<Rightarrow> (int \<times> byte list \<times> error option) go"

text \<open>
  Modelled from the spec: \<open>NullCodec.Decode\<close>, whose source file is missing. The
  specification says that the operation writes the decoded bytes into the buffer of the
  caller and returns the count written, and that "the identity codec copies bytes
  unchanged": as many bytes of \<open>src\<close> as fit in \<open>dst\<close> are copied, and no error is
  returned.
\<close>

definition NullCodec_Decode :: "byte list \<Rightarrow> byte list \<Rightarrow> (int \<times> byte list \<times> error option) go" where
  "NullCodec_Decode dst src =
     (let n = min (length dst) (length src)
      in Returns (int n, take n src @ drop n dst, None))"

text \<open>
  \<open>base64.StdEncoding.Decode\<close>: the count, and \<open>dst\<close> with the decoded bytes at its
  start. The bytes of \<open>dst\<close> after the count are given as unchanged; the fast path of
  the library may write two zero bytes there, which makes no difference on the zeroed
  buffers that \<open>handleMasterReadEvent\<close> and \<open>DecodeString\<close> pass, and only the bytes
  before the count are read.
\<close>

definition StdEncoding_Decode :: "byte list \<Rightarrow> byte list \<Rightarrow> (int \<times> byte list \<times> error option) go" where
  "StdEncoding_Decode dst src =
     (case Decode_loop (length dst) src of
        Panics \<Rightarrow> Panics
      | Returns (out, err) \<Rightarrow> Returns (int (length out), out @ drop (length out) dst, err))"

fun Decode :: "Decoder \<Rightarrow> byte list \<Rightarrow> byte list \<Rightarrow> (int \<times> byte list \<times> error option) go" where
  "Decode NullCodec dst src = NullCodec_Decode dst src"
| "Decode StdEncoding dst src = StdEncoding_Decode dst src"
| "Decode (OtherDecoder f) dst src = f dst src"



section \<open>The collaborators\<close>

text \<open>
  \<open>argResizeTerminal\<close> has two \<open>float64\<close> fields; \<open>'f\<close> stands for \<open>float64\<close>.
\<close>

record 'f argResizeTerminal =
  Columns :: 'f
  Rows :: 'f

text \<open>
  What \<open>webtty.go\<close> uses and does not define is a parameter of the model:
  \<^item> the message type constants of the protocol (one byte each);
  \<^item> the front connection (\<open>Master\<close>) and the back connection (\<open>Slave\<close>), whose states
    are \<open>'m\<close> and \<open>'s\<close>: a \<open>Write\<close> returns an error or none (the count is dropped by
    every caller), \<open>ResizeTerminal\<close> returns an error that the caller drops;
  \<^item> \<open>json.Unmarshal\<close> into an \<open>argResizeTerminal\<close> and the conversion \<open>int(x)\<close> of a
    \<open>float64\<close>;
  \<^item> \<open>ansi.Strip\<close> (its error is dropped by the caller) and
    \<open>utils.RemoveNonGraphicChar\<close>, both functions of their argument.
\<close>

record ('m, 's, 'f) env =
  Input :: byte
  Ping :: byte
  ResizeTerminal :: byte
  SetEncoding :: byte
  Output :: byte
  Pong :: byte
  SetWindowTitle :: byte
  SetPreferences :: byte
  SetReconnect :: byte
  SetBufferSize :: byte
  masterConn_Write :: "'m \<Rightarrow> byte list \<Rightarrow> error option \<times> 'm"
  slave_Write :: "'s \<Rightarrow> byte list \<Rightarrow> error option \<times> 's"
  slave_ResizeTerminal :: "'s \<Rightarrow> int \<Rightarrow> int \<Rightarrow> 's"
  json_Unmarshal :: "byte list \<Rightarrow> error + 'f argResizeTerminal"
  float_to_int :: "'f \<Rightarrow> int"
  ansi_Strip :: "byte list \<Rightarrow> byte list"
  RemoveNonGraphicChar :: "byte list \<Rightarrow> byte list"

definition distinct_input_types :: "('m, 's, 'f) env \<Rightarrow> bool" where
  \<comment> \<open>the four cases of the \<open>switch\<close> in \<open>handleMasterReadEvent\<close> are constants, and the
      compiler rejects a \<open>switch\<close> with two equal constant cases\<close>
  "distinct_input_types env = distinct [Input env, Ping env, SetEncoding env, ResizeTerminal env]"

section \<open>The bridge\<close>

text \<open>
  What the bridge does to its collaborators is recorded in \<open>trace\<close>, in the order of the
  calls: the writes to the front connection, the writes to and the resizes of the back
  connection, and the audit lines handed to the logger (their fields and their message).
\<close>

datatype event =
    MasterWrite "byte list"
  | SlaveWrite "byte list"
  | SlaveResize int int
  | LogInfo "(string \<times> string) list" "byte list"

text \<open>
  The fields of \<open>WebTTY\<close>. \<open>masterPrefs\<close> is \<open>None\<close> for a nil slice, which
  \<open>sendInitializeMessage\<close> tells apart from an empty one. \<open>writeMutex\<close> has no
  counterpart in a sequential model; \<open>logger\<close> is the \<open>LogInfo\<close> events of the trace.
\<close>

record ('m, 's) WebTTY =
  masterConn :: 'm
  slave :: 's
  windowTitle :: "byte list"
  permitWrite :: bool
  columns :: int
  rows :: int
  reconnect :: int
  masterPrefs :: "byte list option"
  username :: string
  auditEnabled :: bool
  decoder :: Decoder
  bufferSize :: int
  feBuffer :: "byte list"
  beBuffer :: "byte list"
  trace :: "event list"

definition New :: "'m \<Rightarrow> 's \<Rightarrow> (('m, 's) WebTTY \<Rightarrow> ('m, 's) WebTTY) list \<Rightarrow> ('m, 's) WebTTY" where
  "New m s options =
     fold (\<lambda>option wt. option wt) options
       \<lparr>masterConn = m, slave = s, windowTitle = [], permitWrite = False, columns = 0, rows = 0,
        reconnect = 0, masterPrefs = None, username = [], auditEnabled = False,
        decoder = NullCodec, bufferSize = 1024, feBuffer = [], beBuffer = [], trace = []\<rparr>"

subsection \<open>The audit sink\<close>

fun LastIndexByte :: "byte list \<Rightarrow> byte \<Rightarrow> int" where
  \<comment> \<open>\<open>bytes.LastIndexByte\<close>: the index of the last occurrence, or -1\<close>
  "LastIndexByte [] c = -1"
| "LastIndexByte (x # xs) c =
     (let r = LastIndexByte xs c
      in if r > -1 then r + 1 else if x = c then 0 else -1)"

definition printAuditLogs ::
  "('m, 's, 'f) env \<Rightarrow> ('m, 's) WebTTY \<Rightarrow> byte list \<Rightarrow> bool \<Rightarrow> ('m, 's) WebTTY" where
  "printAuditLogs env wt logs fe =
     (let stream = (if \<not> fe then ''backend'' else ''browser'');
          fields = [(''log-type'', ''audit''), (''stream'', stream)]
                   @ (if username wt \<noteq> [] then [(''username'', username wt)] else [])
      in wt\<lparr>trace := trace wt @ [LogInfo fields (RemoveNonGraphicChar env logs)]\<rparr>)"

definition auditLogs ::
  "('m, 's, 'f) env \<Rightarrow> ('m, 's) WebTTY \<Rightarrow> byte list \<Rightarrow> bool \<Rightarrow> ('m, 's) WebTTY" where
  "auditLogs env wt buffer fromFe =
     (if \<not> auditEnabled wt then wt
      else
        let buffer' = ansi_Strip env buffer in
        if fromFe then
          (let wt1 = wt\<lparr>feBuffer := feBuffer wt @ buffer'\<rparr>;
               pos = LastIndexByte (feBuffer wt1) 13
           in if pos > -1 then
                (let wt2 = printAuditLogs env wt1 (take (nat pos) (feBuffer wt1)) fromFe
                 in wt2\<lparr>feBuffer := drop (nat (pos + 1)) (feBuffer wt2)\<rparr>)
              else wt1)
        else
          (let wt1 = wt\<lparr>beBuffer := beBuffer wt @ buffer'\<rparr>;
               pos = LastIndexByte (beBuffer wt1) 13
           in if pos > -1 then
                (let wt2 = printAuditLogs env wt1 (take (nat pos) (beBuffer wt1)) fromFe
                 in wt2\<lparr>beBuffer := drop (nat (pos + 1)) (beBuffer wt2)\<rparr>)
              else wt1))"

subsection \<open>Writing to the front connection\<close>

definition masterWrite ::
  "('m, 's, 'f) env \<Rightarrow> ('m, 's) WebTTY \<Rightarrow> byte list \<Rightarrow> error option \<times> ('m, 's) WebTTY" where
  "masterWrite env wt data =
     (let (err, m') = masterConn_Write env (masterConn wt) data;
          wt' = wt\<lparr>masterConn := m', trace := trace wt @ [MasterWrite data]\<rparr>
      in case err of
           Some e \<Rightarrow> (Some (errors_Wrapf e ''failed to write to master''), wt')
         | None \<Rightarrow> (None, wt'))"

definition handleSlaveReadEvent ::
  "('m, 's, 'f) env \<Rightarrow> ('m, 's) WebTTY \<Rightarrow> byte list \<Rightarrow> error option \<times> ('m, 's) WebTTY" where
  "handleSlaveReadEvent env wt data =
     (let safeMessage = EncodeToString data;
          (err, wt') = masterWrite env wt (Output env # safeMessage)
      in case err of
           Some e \<Rightarrow> (Some (errors_Wrapf e ''failed to send message to master''), wt')
         | None \<Rightarrow> (None, wt'))"

subsection \<open>The handshake\<close>

fun decimal :: "nat \<Rightarrow> byte list" where
  "decimal n = (if n < 10 then [0x30 + of_nat n] else decimal (n div 10) @ [0x30 + of_nat (n mod 10)])"

declare decimal.simps [simp del]

definition json_Marshal_int :: "int \<Rightarrow> byte list" where
  \<comment> \<open>\<open>json.Marshal\<close> of an \<open>int\<close>: its decimal digits, after \<open>-\<close> when negative\<close>
  "json_Marshal_int i = (if i < 0 then 0x2D # decimal (nat (- i)) else decimal (nat i))"

definition sendInitializeMessage ::
  "('m, 's, 'f) env \<Rightarrow> ('m, 's) WebTTY \<Rightarrow> error option \<times> ('m, 's) WebTTY" where
  "sendInitializeMessage env wt =
     (case masterWrite env wt (SetWindowTitle env # windowTitle wt) of
        (Some e, wt1) \<Rightarrow> (Some (errors_Wrapf e ''failed to send window title''), wt1)
      | (None, wt1) \<Rightarrow>
     (let bufSizeMsg = json_Marshal_int (bufferSize wt1) in
      case masterWrite env wt1 (SetBufferSize env # bufSizeMsg) of
        (Some e, wt2) \<Rightarrow> (Some (errors_Wrapf e ''failed to send buffer size''), wt2)
      | (None, wt2) \<Rightarrow>
     (case (if reconnect wt2 > 0
            then (case masterWrite env wt2 (SetReconnect env # json_Marshal_int (reconnect wt2)) of
                    (Some e, wt3) \<Rightarrow> (Some (errors_Wrapf e ''failed to set reconnect''), wt3)
                  | (None, wt3) \<Rightarrow> (None, wt3))
            else (None, wt2)) of
        (Some e, wt3) \<Rightarrow> (Some e, wt3)
      | (None, wt3) \<Rightarrow>
     (case masterPrefs wt3 of
        Some prefs \<Rightarrow>
          (case masterWrite env wt3 (SetPreferences env # prefs) of
             (Some e, wt4) \<Rightarrow> (Some (errors_Wrapf e ''failed to set preferences''), wt4)
           | (None, wt4) \<Rightarrow> (None, wt4))
      | None \<Rightarrow> (None, wt3)))))"

text \<open>
  The first statement of \<open>Run\<close>: the handshake, whose failure is returned at once
  (\<open>Inl\<close>). On \<open>Inr\<close> the two read loops start.
\<close>

definition Run_init ::
  "('m, 's, 'f) env \<Rightarrow> ('m, 's) WebTTY \<Rightarrow> (error + unit) \<times> ('m, 's) WebTTY" where
  "Run_init env wt =
     (case sendInitializeMessage env wt of
        (Some err, wt') \<Rightarrow> (Inl (errors_Wrapf err ''failed to send initializing message''), wt')
      | (None, wt') \<Rightarrow> (Inr (), wt'))"

subsection \<open>Messages from the front connection\<close>

definition handleMasterReadEvent ::
  "('m, 's, 'f) env \<Rightarrow> ('m, 's) WebTTY \<Rightarrow> byte list \<Rightarrow> (error option \<times> ('m, 's) WebTTY) go" where
  "handleMasterReadEvent env wt data =
     (if length data = 0 then
        Returns (Some (errors_New ''unexpected zero length read from master''), wt)
      else if hd data = Input env then
        (if \<not> permitWrite wt then Returns (None, wt)
         else if length data \<le> 1 then Returns (None, wt)
         else
           let decodedBuffer = replicate (length data) (0 :: byte) in
           case Decode (decoder wt) decodedBuffer (tl data) of
             Panics \<Rightarrow> Panics
           | Returns (n, decodedBuffer', err) \<Rightarrow>
               (case err of
                  Some e \<Rightarrow> Returns (Some (errors_Wrapf e ''failed to decode received data''), wt)
                | None \<Rightarrow>
                    (case slice_to decodedBuffer' n of
                       Panics \<Rightarrow> Panics
                     | Returns decoded \<Rightarrow>
                         let wt1 = auditLogs env wt decoded True;
                             (err, s') = slave_Write env (slave wt1) decoded;
                             wt2 = wt1\<lparr>slave := s', trace := trace wt1 @ [SlaveWrite decoded]\<rparr>
                         in case err of
                              Some e \<Rightarrow>
                                Returns (Some (errors_Wrapf e ''failed to write received data to slave''), wt2)
                            | None \<Rightarrow> Returns (None, wt2))))
      else if hd data = Ping env then
        (case masterWrite env wt [Pong env] of
           (Some e, wt') \<Rightarrow>
             Returns (Some (errors_Wrapf e ''failed to return Pong message to master''), wt')
         | (None, wt') \<Rightarrow> Returns (None, wt'))
      else if hd data = SetEncoding env then
        (if tl data = bytes ''base64'' then Returns (None, wt\<lparr>decoder := StdEncoding\<rparr>)
         else if tl data = bytes ''null'' then Returns (None, wt\<lparr>decoder := NullCodec\<rparr>)
         else Returns (None, wt))
      else if hd data = ResizeTerminal env then
        (if columns wt \<noteq> 0 \<and> rows wt \<noteq> 0 then Returns (None, wt)
         else if length data \<le> 1 then
           Returns (Some (errors_New
             ''received malformed remote command for terminal resize: empty payload''), wt)
         else
           case json_Unmarshal env (tl data) of
             Inl e \<Rightarrow> Returns (Some (errors_Wrapf e ''received malformed data for terminal resize''), wt)
           | Inr args \<Rightarrow>
               let rows' = (if rows wt = 0 then float_to_int env (Rows args) else rows wt);
                   columns' = (if columns wt = 0 then float_to_int env (Columns args) else columns wt)
               in Returns (None, wt\<lparr>slave := slave_ResizeTerminal env (slave wt) columns' rows',
                                      trace := trace wt @ [SlaveResize columns' rows']\<rparr>))
      else Returns (Some (errors_Errorf_unknown (hd data)), wt))"

subsection \<open>The loop that reads the back connection\<close>

text \<open>The chunk size that the loop computes from the buffer size before each read.\<close>

definition maxChunkSize :: "int \<Rightarrow> int" where
  "maxChunkSize bufSize = (let effectiveBufferSize = bufSize - 1 in go_quot effectiveBufferSize 4 * 3)"

text \<open>
  The loop that reads the back connection, run on the reads it is given: \<open>Inl\<close> is a
  failed read, \<open>Inr\<close> the bytes of a successful one. The result is the error the loop
  returns, or \<open>None\<close> when the reads are used up and the loop waits in the next \<open>Read\<close>.
\<close>

fun slave_loop ::
  "('m, 's, 'f) env \<Rightarrow> ('m, 's) WebTTY \<Rightarrow> (error + byte list) list \<Rightarrow> error option \<times> ('m, 's) WebTTY" where
  "slave_loop env wt [] = (None, wt)"
| "slave_loop env wt (Inl e # reads) = (Some ErrSlaveClosed, wt)"
| "slave_loop env wt (Inr chunk # reads) =
     (let wt1 = auditLogs env wt chunk False in
      case handleSlaveReadEvent env wt1 chunk of
        (Some err, wt2) \<Rightarrow> (Some err, wt2)
      | (None, wt2) \<Rightarrow> slave_loop env wt2 reads)"

text \<open>
  The loop as \<open>Run\<close> starts it: \<open>make\<close> panics on a negative buffer size, and
  \<open>buffer[:maxChunkSize]\<close> panics when the bound is outside the buffer.
\<close>

definition back_to_front ::
  "('m, 's, 'f) env \<Rightarrow> ('m, 's) WebTTY \<Rightarrow> (error + byte list) list
     \<Rightarrow> (error option \<times> ('m, 's) WebTTY) go" where
  "back_to_front env wt reads =
     (if bufferSize wt < 0 then Panics
      else if maxChunkSize (bufferSize wt) < 0 \<or> bufferSize wt < maxChunkSize (bufferSize wt) then Panics
      else Returns (slave_loop env wt reads))"

section \<open>What the properties observe\<close>

text \<open>
  Functions that read a result, a bridge or a trace, and the handshake written as a list,
  to state the properties below. They are not part of the program.
\<close>

definition returned_error :: "(error option \<times> 'a) go \<Rightarrow> bool" where
  \<comment> \<open>the call returned a non-nil error\<close>
  "returned_error r = (case r of Returns (Some e, wt') \<Rightarrow> True | _ \<Rightarrow> False)"

definition accumulator :: "('m, 's) WebTTY \<Rightarrow> bool \<Rightarrow> byte list" where
  \<comment> \<open>the accumulator of a direction: \<open>feBuffer\<close> for the front end, \<open>beBuffer\<close> otherwise\<close>
  "accumulator wt fromFe = (if fromFe then feBuffer wt else beBuffer wt)"

text \<open>The messages of the audit lines of a trace, in order.\<close>

fun audit_lines :: "event list \<Rightarrow> byte list list" where
  "audit_lines [] = []"
| "audit_lines (LogInfo fs msg # es) = msg # audit_lines es"
| "audit_lines (e # es) = audit_lines es"



text \<open>
  The handshake as the specification lists it: the messages in order, each with the text
  that names its step when its write fails. The specification announces a reconnect
  interval that is not zero; here, as in \<open>sendInitializeMessage\<close>, it is announced when
  it is positive.
\<close>

definition handshake_messages :: "('m, 's, 'f) env \<Rightarrow> ('m, 's) WebTTY \<Rightarrow> (byte list \<times> string) list" where
  "handshake_messages env wt =
     [(SetWindowTitle env # windowTitle wt, ''failed to send window title''),
      (SetBufferSize env # json_Marshal_int (bufferSize wt), ''failed to send buffer size'')]
     @ (if reconnect wt > 0
        then [(SetReconnect env # json_Marshal_int (reconnect wt), ''failed to set reconnect'')]
        else [])
     @ (case masterPrefs wt of
          Some prefs \<Rightarrow> [(SetPreferences env # prefs, ''failed to set preferences'')]
        | None \<Rightarrow> [])"

text \<open>Writing a list of messages in order, stopping at the first write that fails.\<close>

fun write_in_order ::
  "('m, 's, 'f) env \<Rightarrow> ('m, 's) WebTTY \<Rightarrow> (byte list \<times> string) list \<Rightarrow> error option \<times> ('m, 's) WebTTY" where
  "write_in_order env wt [] = (None, wt)"
| "write_in_order env wt ((msg, step) # rest) =
     (case masterWrite env wt msg of
        (Some e, wt') \<Rightarrow> (Some (errors_Wrapf e step), wt')
      | (None, wt') \<Rightarrow> write_in_order env wt' rest)"

text \<open>
  The front connection after a list of writes, and the outcome of the \<open>i\<close>-th write of a
  list of messages on a connection that has taken the writes before it.
\<close>

definition master_after :: "('m, 's, 'f) env \<Rightarrow> 'm \<Rightarrow> byte list list \<Rightarrow> 'm" where
  "master_after env m msgs = fold (\<lambda>msg m'. snd (masterConn_Write env m' msg)) msgs m"

definition nth_write_result ::
  "('m, 's, 'f) env \<Rightarrow> 'm \<Rightarrow> (byte list \<times> string) list \<Rightarrow> nat \<Rightarrow> error option" where
  "nth_write_result env m steps i =
     fst (masterConn_Write env (master_after env m (map fst (take i steps))) (fst (steps ! i)))"

section \<open>A concrete configuration\<close>

text \<open>
  An instance of the parameters, to evaluate the model at concrete inputs: the protocol's
  message types are the ASCII digits; the front connection accepts as many writes as its
  state says and then fails; the back connection accepts everything; \<open>json_Unmarshal\<close>
  accepts the empty object (both fields stay zero) and nothing else; the two stripping
  functions are the identity and the filter of printable ASCII, which is what they do on
  text without escape sequences.
\<close>

definition example_env :: "(nat, unit, int) env" where
  "example_env =
     \<lparr>Input = 0x31, Ping = 0x32, ResizeTerminal = 0x33, SetEncoding = 0x34,
      Output = 0x31, Pong = 0x32, SetWindowTitle = 0x33, SetPreferences = 0x34,
      SetReconnect = 0x35, SetBufferSize = 0x36,
      masterConn_Write = (\<lambda>m data. if m = 0 then (Some (External ''closed''), 0) else (None, m - 1)),
      slave_Write = (\<lambda>s data. (None, s)),
      slave_ResizeTerminal = (\<lambda>s c r. s),
      json_Unmarshal = (\<lambda>b. if b = bytes ''{}'' then Inr \<lparr>Columns = 0, Rows = 0\<rparr>
                              else Inl (External ''invalid'')),
      float_to_int = (\<lambda>x. x),
      ansi_Strip = (\<lambda>b. b),
      RemoveNonGraphicChar = filter (\<lambda>b. 0x20 \<le> b \<and> b \<le> 0x7E)\<rparr>"

definition example_wt :: "(nat, unit) WebTTY" where
  "example_wt = New 2 () []"

definition audit_wt :: "(nat, unit) WebTTY" where
  "audit_wt = example_wt\<lparr>auditEnabled := True\<rparr>"

section \<open>Dispatch of the messages of the front connection\<close>

lemma example_distinct: "distinct_input_types example_env"
  by (simp add: distinct_input_types_def example_env_def)

lemma distinct_input_typesD:
  assumes "distinct_input_types env"
  shows "Ping env \<noteq> Input env" "SetEncoding env \<noteq> Input env" "SetEncoding env \<noteq> Ping env"
    "ResizeTerminal env \<noteq> Input env" "ResizeTerminal env \<noteq> Ping env"
    "ResizeTerminal env \<noteq> SetEncoding env"
  using assms by (auto simp: distinct_input_types_def)

lemma codec_names_differ: "bytes ''null'' \<noteq> bytes ''base64''" "bytes ''base64'' \<noteq> bytes ''null''"
  by (simp_all add: bytes_def)

text \<open>
  C1, as amended. A resize message never panics, and it is answered with an error exactly
  when the two dimensions are not both fixed and the payload is empty or is refused by
  \<open>json.Unmarshal\<close>. With both dimensions fixed the payload is not looked at, so the
  rejection does depend on the configured dimensions.
\<close>

theorem resize_error_iff:
  "distinct_input_types env \<Longrightarrow>
   handleMasterReadEvent env wt (ResizeTerminal env # payload) \<noteq> Panics \<and>
   (returned_error (handleMasterReadEvent env wt (ResizeTerminal env # payload)) \<longleftrightarrow>
    \<not> (columns wt \<noteq> 0 \<and> rows wt \<noteq> 0) \<and> (payload = [] \<or> isl (json_Unmarshal env payload)))"
  by (simp add: handleMasterReadEvent_def distinct_input_typesD returned_error_def Let_def
      split: sum.splits)

theorem resize_error_iff_witness:
  "distinct_input_types example_env \<and>
   handleMasterReadEvent example_env example_wt (ResizeTerminal example_env # bytes ''x'') \<noteq> Panics \<and>
   (returned_error (handleMasterReadEvent example_env example_wt (ResizeTerminal example_env # bytes ''x'')) \<longleftrightarrow>
    \<not> (columns example_wt \<noteq> 0 \<and> rows example_wt \<noteq> 0) \<and>
    (bytes ''x'' = [] \<or> isl (json_Unmarshal example_env (bytes ''x''))))"
  using resize_error_iff [of example_env example_wt "bytes ''x''"] example_distinct
  by simp

text \<open>
  C1 as stated fails: with 80 columns and 24 rows fixed, a resize message with an empty
  payload returns no error.
\<close>

theorem resize_empty_payload_both_fixed:
  "returned_error (handleMasterReadEvent example_env (example_wt\<lparr>columns := 80, rows := 24\<rparr>)
       (ResizeTerminal example_env # [])) \<noteq>
   (([] :: byte list) = [] \<or> isl (json_Unmarshal example_env []))"
  by (simp add: handleMasterReadEvent_def returned_error_def example_env_def)

text \<open>
  C2. With both dimensions fixed (columns and rows nonzero), a resize message with any
  payload returns no error and leaves the bridge as it was; the trace is part of the
  bridge, so \<open>ResizeTerminal\<close> of the back connection is not called.
\<close>

theorem resize_ignored_when_both_fixed:
  "distinct_input_types env \<Longrightarrow> columns wt \<noteq> 0 \<Longrightarrow> rows wt \<noteq> 0 \<Longrightarrow>
   handleMasterReadEvent env wt (ResizeTerminal env # payload) = Returns (None, wt)"
  by (simp add: handleMasterReadEvent_def distinct_input_typesD)

theorem resize_ignored_when_both_fixed_witness:
  "distinct_input_types example_env \<and> columns (example_wt\<lparr>columns := 80, rows := 24\<rparr>) \<noteq> 0
   \<and> rows (example_wt\<lparr>columns := 80, rows := 24\<rparr>) \<noteq> 0 \<and>
   handleMasterReadEvent example_env (example_wt\<lparr>columns := 80, rows := 24\<rparr>)
      (ResizeTerminal example_env # bytes ''garbage'')
     = Returns (None, example_wt\<lparr>columns := 80, rows := 24\<rparr>)"
  using resize_ignored_when_both_fixed
          [of example_env "example_wt\<lparr>columns := 80, rows := 24\<rparr>" "bytes ''garbage''"]
        example_distinct
  by simp

text \<open>
  C5. A data message (tag \<open>Input\<close>) that arrives while \<open>permitWrite\<close> is false returns
  nil and leaves the bridge as it was: nothing is written to the back connection, and
  the decoder, the audit buffers and the geometry are unchanged.
\<close>

theorem input_discarded_without_permitWrite:
  "\<not> permitWrite wt \<Longrightarrow> handleMasterReadEvent env wt (Input env # payload) = Returns (None, wt)"
  by (simp add: handleMasterReadEvent_def)

theorem input_discarded_without_permitWrite_witness:
  "\<not> permitWrite example_wt \<and>
   handleMasterReadEvent example_env example_wt (Input example_env # bytes ''ls'')
     = Returns (None, example_wt)"
  using input_discarded_without_permitWrite [of example_wt example_env "bytes ''ls''"]
  by (simp add: example_wt_def New_def)

text \<open>
  C6. A set-encoding message returns no error; the decoder becomes \<open>StdEncoding\<close> for
  the payload \<open>base64\<close>, \<open>NullCodec\<close> for the payload \<open>null\<close>, and for any other payload
  the bridge, its decoder included, is as before. Nothing else changes in either case.
\<close>

theorem set_encoding_selects_decoder:
  "distinct_input_types env \<Longrightarrow>
   \<exists>wt'. handleMasterReadEvent env wt (SetEncoding env # payload) = Returns (None, wt')
     \<and> (payload = bytes ''base64'' \<longrightarrow> wt' = wt\<lparr>decoder := StdEncoding\<rparr>)
     \<and> (payload = bytes ''null'' \<longrightarrow> wt' = wt\<lparr>decoder := NullCodec\<rparr>)
     \<and> (payload \<noteq> bytes ''base64'' \<and> payload \<noteq> bytes ''null'' \<longrightarrow> wt' = wt)"
  by (simp add: handleMasterReadEvent_def distinct_input_typesD codec_names_differ)

theorem set_encoding_selects_decoder_witness:
  "distinct_input_types example_env \<and>
   handleMasterReadEvent example_env example_wt (SetEncoding example_env # bytes ''base64'')
     = Returns (None, example_wt\<lparr>decoder := StdEncoding\<rparr>)"
  using set_encoding_selects_decoder [of example_env example_wt "bytes ''base64''"] example_distinct
  by auto

section \<open>The audit sink\<close>

lemma LastIndexByte_bounds: "- 1 \<le> LastIndexByte xs c \<and> LastIndexByte xs c < int (length xs)"
  by (induction xs) (auto simp: Let_def)

lemma LastIndexByte_absent: "\<not> LastIndexByte xs c > - 1 \<Longrightarrow> c \<notin> set xs"
  by (induction xs) (auto simp: Let_def split: if_splits)

lemma LastIndexByte_rest: "LastIndexByte xs c > - 1 \<Longrightarrow> c \<notin> set (drop (nat (LastIndexByte xs c + 1)) xs)"
proof (induction xs)
  case Nil
  then show ?case by simp
next
  case (Cons x xs)
  show ?case
  proof (cases "LastIndexByte xs c > - 1")
    case True
    then have "nat (LastIndexByte xs c + 1 + 1) = Suc (nat (LastIndexByte xs c + 1))"
      by simp
    with True Cons.IH show ?thesis by (simp add: Let_def)
  next
    case False
    with Cons.prems have "x = c" by (simp add: Let_def split: if_splits)
    with False LastIndexByte_absent [of xs c] show ?thesis by (simp add: Let_def)
  qed
qed

lemma LastIndexByte_at: "LastIndexByte xs c > - 1 \<Longrightarrow> xs ! nat (LastIndexByte xs c) = c"
proof (induction xs)
  case Nil
  then show ?case by simp
next
  case (Cons x xs)
  show ?case
  proof (cases "LastIndexByte xs c > - 1")
    case True
    then have "nat (LastIndexByte xs c + 1) = Suc (nat (LastIndexByte xs c))"
      by simp
    with True Cons.IH show ?thesis by (simp add: Let_def)
  next
    case False
    with Cons.prems show ?thesis by (simp add: Let_def split: if_splits)
  qed
qed

lemma LastIndexByte_split:
  assumes "LastIndexByte xs c > - 1"
  shows "xs = take (nat (LastIndexByte xs c)) xs @ c # drop (nat (LastIndexByte xs c + 1)) xs"
proof -
  let ?r = "nat (LastIndexByte xs c)"
  have lt: "?r < length xs" using LastIndexByte_bounds [of xs c] assms by simp
  have "nat (LastIndexByte xs c + 1) = Suc ?r" using assms by simp
  with id_take_nth_drop [OF lt] LastIndexByte_at [OF assms] show ?thesis by simp
qed

lemma auditLogs_disabled: "\<not> auditEnabled wt \<Longrightarrow> auditLogs env wt buffer fromFe = wt"
  by (simp add: auditLogs_def)

lemma auditLogs_accumulator:
  assumes "auditEnabled wt"
  shows "accumulator (auditLogs env wt buffer fromFe) fromFe =
     (let all = accumulator wt fromFe @ ansi_Strip env buffer; pos = LastIndexByte all 13
      in if pos > - 1 then drop (nat (pos + 1)) all else all)"
  using assms by (simp add: auditLogs_def accumulator_def printAuditLogs_def Let_def)

lemma auditLogs_other_accumulator:
  "accumulator (auditLogs env wt buffer fromFe) (\<not> fromFe) = accumulator wt (\<not> fromFe)"
  by (simp add: auditLogs_def accumulator_def printAuditLogs_def Let_def)

text \<open>
  C9. A call of \<open>auditLogs\<close> for one direction leaves the other accumulator alone. With
  auditing on, the accumulator of the direction afterwards holds no carriage return
  (byte 13): either the old contents and the stripped input hold none and are kept whole,
  or they are cut behind their last carriage return and only the bytes after it are kept.
  With auditing off the bridge is unchanged, so an accumulator without a carriage return
  (as \<open>New\<close> creates it) stays so after every call.
\<close>

theorem audit_accumulator_no_CR:
  "(auditEnabled wt \<or> 13 \<notin> set (accumulator wt fromFe) \<longrightarrow>
      13 \<notin> set (accumulator (auditLogs env wt buffer fromFe) fromFe))
   \<and> accumulator (auditLogs env wt buffer fromFe) (\<not> fromFe) = accumulator wt (\<not> fromFe)
   \<and> (auditEnabled wt \<longrightarrow>
        (13 \<notin> set (accumulator wt fromFe @ ansi_Strip env buffer) \<and>
         accumulator (auditLogs env wt buffer fromFe) fromFe = accumulator wt fromFe @ ansi_Strip env buffer)
        \<or> (\<exists>line. accumulator wt fromFe @ ansi_Strip env buffer
               = line @ 13 # accumulator (auditLogs env wt buffer fromFe) fromFe))
   \<and> (\<not> auditEnabled wt \<longrightarrow> auditLogs env wt buffer fromFe = wt)"
proof (cases "auditEnabled wt")
  case False
  then show ?thesis by (simp add: auditLogs_disabled auditLogs_other_accumulator)
next
  case True
  let ?all = "accumulator wt fromFe @ ansi_Strip env buffer"
  let ?new = "accumulator (auditLogs env wt buffer fromFe) fromFe"
  show ?thesis
  proof (cases "LastIndexByte ?all 13 > - 1")
    case found: True
    then have new: "?new = drop (nat (LastIndexByte ?all 13 + 1)) ?all"
      using True by (simp add: auditLogs_accumulator Let_def)
    have "13 \<notin> set ?new"
      using LastIndexByte_rest [OF found] new by simp
    moreover have "\<exists>line. ?all = line @ 13 # ?new"
      using LastIndexByte_split [OF found] new by metis
    ultimately show ?thesis
      using True auditLogs_other_accumulator [of env wt buffer fromFe] by blast
  next
    case absent: False
    then have new: "?new = ?all"
      using True by (simp add: auditLogs_accumulator Let_def)
    have "13 \<notin> set ?all"
      using LastIndexByte_absent [OF absent] .
    with new show ?thesis
      using True auditLogs_other_accumulator [of env wt buffer fromFe] by simp
  qed
qed

theorem audit_accumulator_no_CR_witness:
  "auditEnabled audit_wt \<and>
   13 \<notin> set (accumulator (auditLogs example_env audit_wt (bytes ''ls'' @ [13] @ bytes ''pw'') True) True)"
  using audit_accumulator_no_CR [of audit_wt True example_env "bytes ''ls'' @ [13] @ bytes ''pw''"]
  by (simp add: audit_wt_def)

lemma audit_lines_append: "audit_lines (xs @ ys) = audit_lines xs @ audit_lines ys"
  by (induction xs rule: audit_lines.induct) simp_all

lemma auditLogs_flush:
  assumes "auditEnabled wt" "ansi_Strip env buffer = buffer"
    and "LastIndexByte (feBuffer wt @ buffer) 13 > - 1"
  shows "feBuffer (auditLogs env wt buffer True)
           = drop (nat (LastIndexByte (feBuffer wt @ buffer) 13 + 1)) (feBuffer wt @ buffer)"
    and "audit_lines (trace (auditLogs env wt buffer True))
           = audit_lines (trace wt)
             @ [RemoveNonGraphicChar env (take (nat (LastIndexByte (feBuffer wt @ buffer) 13)) (feBuffer wt @ buffer))]"
    and "auditEnabled (auditLogs env wt buffer True)"
  using assms by (simp_all add: auditLogs_def printAuditLogs_def Let_def audit_lines_append)

lemma LastIndexByte_ls: "LastIndexByte (bytes ''ls'' @ [13]) 13 = 2" "LastIndexByte [13] 13 = 0"
  by (simp_all add: bytes_def)

text \<open>
  C8, as amended. With auditing on, an empty front-end accumulator and the two inputs
  free of escape sequences (\<open>ansi.Strip\<close> returns them as they are), the input
  \<open>ls\<close> + CR followed by a lone CR emits two audit lines: the first with the message
  \<open>ls\<close>, the second with the empty message (both after \<open>RemoveNonGraphicChar\<close>).
  Every call that finds a carriage return emits a line, also when nothing precedes it.
\<close>

theorem audit_ls_then_CR_two_lines:
  assumes "auditEnabled wt" and "feBuffer wt = []"
    and "ansi_Strip env (bytes ''ls'' @ [13]) = bytes ''ls'' @ [13]"
    and "ansi_Strip env [13] = [13]"
  shows "audit_lines (trace (auditLogs env (auditLogs env wt (bytes ''ls'' @ [13]) True) [13] True))
           = audit_lines (trace wt)
             @ [RemoveNonGraphicChar env (bytes ''ls''), RemoveNonGraphicChar env []]"
proof -
  let ?wt1 = "auditLogs env wt (bytes ''ls'' @ [13]) True"
  have pos1: "LastIndexByte (feBuffer wt @ bytes ''ls'' @ [13]) 13 > - 1"
    using assms(2) LastIndexByte_ls by simp
  have fe1: "feBuffer ?wt1 = []"
    using auditLogs_flush(1) [OF assms(1) assms(3) pos1] assms(2) LastIndexByte_ls
    by (simp add: bytes_def)
  have tr1: "audit_lines (trace ?wt1) = audit_lines (trace wt) @ [RemoveNonGraphicChar env (bytes ''ls'')]"
    using auditLogs_flush(2) [OF assms(1) assms(3) pos1] assms(2) LastIndexByte_ls
    by (simp add: bytes_def)
  have en1: "auditEnabled ?wt1"
    using auditLogs_flush(3) [OF assms(1) assms(3) pos1] .
  have pos2: "LastIndexByte (feBuffer ?wt1 @ [13]) 13 > - 1"
    using fe1 by simp
  show ?thesis
    using auditLogs_flush(2) [OF en1 assms(4) pos2] fe1 tr1 by simp
qed

theorem audit_ls_then_CR_two_lines_witness:
  "auditEnabled audit_wt \<and> feBuffer audit_wt = []
   \<and> ansi_Strip example_env (bytes ''ls'' @ [13]) = bytes ''ls'' @ [13]
   \<and> ansi_Strip example_env [13] = [13]
   \<and> audit_lines (trace (auditLogs example_env (auditLogs example_env audit_wt (bytes ''ls'' @ [13]) True) [13] True))
       = [bytes ''ls'', []]"
  using audit_ls_then_CR_two_lines [of audit_wt example_env]
  by (simp add: audit_wt_def example_wt_def New_def example_env_def bytes_def)

text \<open>
  C8 as stated fails: in the concrete configuration the lines emitted are not the single
  line \<open>ls\<close>.
\<close>

theorem audit_ls_then_CR_not_one_line:
  "audit_lines (trace (auditLogs example_env (auditLogs example_env audit_wt (bytes ''ls'' @ [13]) True) [13] True))
     \<noteq> [bytes ''ls'']"
  by (simp add: audit_wt_def example_wt_def New_def example_env_def bytes_def
        auditLogs_def printAuditLogs_def Let_def)

section \<open>The handshake\<close>

lemma masterWrite_cases:
  obtains (ok) "masterWrite env wt msg =
                  (None, wt\<lparr>masterConn := snd (masterConn_Write env (masterConn wt) msg),
                            trace := trace wt @ [MasterWrite msg]\<rparr>)"
                "fst (masterConn_Write env (masterConn wt) msg) = None"
  | (fail) e where "masterWrite env wt msg =
                  (Some (errors_Wrapf e ''failed to write to master''),
                   wt\<lparr>masterConn := snd (masterConn_Write env (masterConn wt) msg),
                      trace := trace wt @ [MasterWrite msg]\<rparr>)"
                "fst (masterConn_Write env (masterConn wt) msg) = Some e"
  by (cases "masterConn_Write env (masterConn wt) msg"; cases "fst (masterConn_Write env (masterConn wt) msg)")
     (auto simp: masterWrite_def)

lemma sendInitializeMessage_write_in_order:
  "sendInitializeMessage env wt = write_in_order env wt (handshake_messages env wt)"
proof -
  let ?m1 = "SetWindowTitle env # windowTitle wt"
  show ?thesis
  proof (cases rule: masterWrite_cases [of env wt ?m1])
    case fail
    then show ?thesis by (simp add: sendInitializeMessage_def handshake_messages_def)
  next
    case ok
    let ?wt1 = "wt\<lparr>masterConn := snd (masterConn_Write env (masterConn wt) ?m1),
                    trace := trace wt @ [MasterWrite ?m1]\<rparr>"
    let ?m2 = "SetBufferSize env # json_Marshal_int (bufferSize wt)"
    show ?thesis
    proof (cases rule: masterWrite_cases [of env ?wt1 ?m2])
      case fail
      with ok show ?thesis by (simp add: sendInitializeMessage_def handshake_messages_def)
    next
      case ok2: ok
      let ?wt2 = "?wt1\<lparr>masterConn := snd (masterConn_Write env (masterConn ?wt1) ?m2),
                    trace := trace ?wt1 @ [MasterWrite ?m2]\<rparr>"
      let ?m3 = "SetReconnect env # json_Marshal_int (reconnect wt)"
      show ?thesis
      proof (cases "reconnect wt > 0")
        case True
        show ?thesis
        proof (cases rule: masterWrite_cases [of env ?wt2 ?m3])
          case fail
          with ok ok2 True show ?thesis
            by (simp add: sendInitializeMessage_def handshake_messages_def)
        next
          case ok3: ok
          let ?wt3 = "?wt2\<lparr>masterConn := snd (masterConn_Write env (masterConn ?wt2) ?m3),
                    trace := trace ?wt2 @ [MasterWrite ?m3]\<rparr>"
          show ?thesis
          proof (cases "masterPrefs wt")
            case None
            with ok ok2 ok3 True show ?thesis
              by (simp add: sendInitializeMessage_def handshake_messages_def)
          next
            case (Some prefs)
            show ?thesis 
              by (cases rule: masterWrite_cases [of env ?wt3 "SetPreferences env # prefs"])
                 (use ok ok2 ok3 True Some in \<open>simp_all add: sendInitializeMessage_def handshake_messages_def\<close>)
          qed
        qed
      next
        case False
        show ?thesis
        proof (cases "masterPrefs wt")
          case None
          with ok ok2 False show ?thesis
            by (simp add: sendInitializeMessage_def handshake_messages_def)
        next
          case (Some prefs)
          show ?thesis 
            by (cases rule: masterWrite_cases [of env ?wt2 "SetPreferences env # prefs"])
               (use ok ok2 False Some in \<open>simp_all add: sendInitializeMessage_def handshake_messages_def\<close>)
        qed
      qed
    qed
  qed
qed

lemma nth_write_result_0: "nth_write_result env m (s # steps) 0 = fst (masterConn_Write env m (fst s))"
  by (simp add: nth_write_result_def master_after_def)

lemma nth_write_result_Suc:
  "nth_write_result env m (s # steps) (Suc i)
     = nth_write_result env (snd (masterConn_Write env m (fst s))) steps i"
  by (simp add: nth_write_result_def master_after_def)

lemma write_in_order_all_succeed:
  "\<forall>i < length steps. nth_write_result env (masterConn wt) steps i = None \<Longrightarrow>
   fst (write_in_order env wt steps) = None \<and>
   trace (snd (write_in_order env wt steps)) = trace wt @ map (\<lambda>s. MasterWrite (fst s)) steps"
proof (induction steps arbitrary: wt)
  case Nil
  then show ?case by simp
next
  case (Cons s steps)
  obtain msg step where s: "s = (msg, step)" by (cases s)
  let ?wt1 = "wt\<lparr>masterConn := snd (masterConn_Write env (masterConn wt) msg),
                  trace := trace wt @ [MasterWrite msg]\<rparr>"
  have first: "fst (masterConn_Write env (masterConn wt) msg) = None"
    using Cons.prems [rule_format, of 0] by (simp add: nth_write_result_0 s)
  have rest: "\<forall>i < length steps. nth_write_result env (masterConn ?wt1) steps i = None"
  proof (intro allI impI)
    fix i assume "i < length steps"
    then have "nth_write_result env (masterConn wt) (s # steps) (Suc i) = None"
      using Cons.prems by simp
    then show "nth_write_result env (masterConn ?wt1) steps i = None"
      by (simp add: nth_write_result_Suc s)
  qed
  show ?case
  proof (cases rule: masterWrite_cases [of env wt msg])
    case (fail e)
    with first show ?thesis by simp
  next
    case ok
    with Cons.IH [OF rest] s show ?thesis by simp
  qed
qed

lemma write_in_order_first_failure:
  "i < length steps \<Longrightarrow>
   \<forall>j < i. nth_write_result env (masterConn wt) steps j = None \<Longrightarrow>
   nth_write_result env (masterConn wt) steps i = Some e \<Longrightarrow>
   fst (write_in_order env wt steps)
     = Some (errors_Wrapf (errors_Wrapf e ''failed to write to master'') (snd (steps ! i))) \<and>
   trace (snd (write_in_order env wt steps))
     = trace wt @ map (\<lambda>s. MasterWrite (fst s)) (take (Suc i) steps)"
proof (induction steps arbitrary: wt i)
  case Nil
  then show ?case by simp
next
  case (Cons s steps)
  obtain msg step where s: "s = (msg, step)" by (cases s)
  let ?wt1 = "wt\<lparr>masterConn := snd (masterConn_Write env (masterConn wt) msg),
                  trace := trace wt @ [MasterWrite msg]\<rparr>"
  show ?case
  proof (cases i)
    case 0
    with Cons.prems(3) have f: "fst (masterConn_Write env (masterConn wt) msg) = Some e"
      by (simp add: nth_write_result_0 s)
    show ?thesis
    proof (cases rule: masterWrite_cases [of env wt msg])
      case ok
      with f show ?thesis by simp
    next
      case (fail e')
      with f have "e' = e" by simp
      with fail 0 s show ?thesis by simp
    qed
  next
    case (Suc i')
    have first: "fst (masterConn_Write env (masterConn wt) msg) = None"
      using Cons.prems(2) [rule_format, of 0] Suc by (simp add: nth_write_result_0 s)
    have lt: "i' < length steps" using Cons.prems(1) Suc by simp
    have before: "\<forall>j < i'. nth_write_result env (masterConn ?wt1) steps j = None"
    proof (intro allI impI)
      fix j assume "j < i'"
      then have "nth_write_result env (masterConn wt) (s # steps) (Suc j) = None"
        using Cons.prems(2) Suc by simp
      then show "nth_write_result env (masterConn ?wt1) steps j = None"
        by (simp add: nth_write_result_Suc s)
    qed
    have at: "nth_write_result env (masterConn ?wt1) steps i' = Some e"
      using Cons.prems(3) Suc by (simp add: nth_write_result_Suc s)
    show ?thesis
    proof (cases rule: masterWrite_cases [of env wt msg])
      case (fail e')
      with first show ?thesis by simp
    next
      case ok
      with Cons.IH [OF lt before at] s Suc show ?thesis by simp
    qed
  qed
qed

lemma Run_init_write_in_order:
  "fst (Run_init env wt) =
      (case fst (write_in_order env wt (handshake_messages env wt)) of
         Some err \<Rightarrow> Inl (errors_Wrapf err ''failed to send initializing message'')
       | None \<Rightarrow> Inr ())"
  "snd (Run_init env wt) = snd (write_in_order env wt (handshake_messages env wt))"
proof -
  obtain r wt' where w: "write_in_order env wt (handshake_messages env wt) = (r, wt')"
    by (cases "write_in_order env wt (handshake_messages env wt)")
  show "fst (Run_init env wt) =
      (case fst (write_in_order env wt (handshake_messages env wt)) of
         Some err \<Rightarrow> Inl (errors_Wrapf err ''failed to send initializing message'')
       | None \<Rightarrow> Inr ())"
    using w by (cases r) (simp_all add: Run_init_def sendInitializeMessage_write_in_order)
  show "snd (Run_init env wt) = snd (write_in_order env wt (handshake_messages env wt))"
    using w by (cases r) (simp_all add: Run_init_def sendInitializeMessage_write_in_order)
qed

text \<open>
  C7, as amended. \<open>Run\<close> first writes to the front connection, in this order and
  with nothing in between: set-window-title, set-buffer-size with the decimal buffer size,
  set-reconnect with the interval when the interval is positive, and set-preferences when
  the preferences are not nil. When every write succeeds, all of them are written and the
  handshake succeeds. When a write fails after the writes before it succeeded, \<open>Run\<close>
  returns at once, with nothing written after the failing message, the error of that
  write wrapped with "failed to write to master", the text of the failing step and
  "failed to send initializing message".
\<close>

theorem handshake_in_order:
  "((\<forall>i < length (handshake_messages env wt).
        nth_write_result env (masterConn wt) (handshake_messages env wt) i = None) \<longrightarrow>
      fst (Run_init env wt) = Inr () \<and>
      trace (snd (Run_init env wt))
        = trace wt @ map (\<lambda>s. MasterWrite (fst s)) (handshake_messages env wt))
   \<and> (\<forall>i e. i < length (handshake_messages env wt) \<and>
          (\<forall>j < i. nth_write_result env (masterConn wt) (handshake_messages env wt) j = None) \<and>
          nth_write_result env (masterConn wt) (handshake_messages env wt) i = Some e \<longrightarrow>
        fst (Run_init env wt)
          = Inl (errors_Wrapf
                   (errors_Wrapf (errors_Wrapf e ''failed to write to master'')
                      (snd (handshake_messages env wt ! i)))
                   ''failed to send initializing message'') \<and>
        trace (snd (Run_init env wt))
          = trace wt @ map (\<lambda>s. MasterWrite (fst s)) (take (Suc i) (handshake_messages env wt)))"
proof (intro conjI impI allI)
  assume ok: "\<forall>i < length (handshake_messages env wt).
        nth_write_result env (masterConn wt) (handshake_messages env wt) i = None"
  from write_in_order_all_succeed [OF ok]
  show "fst (Run_init env wt) = Inr ()"
    and "trace (snd (Run_init env wt))
        = trace wt @ map (\<lambda>s. MasterWrite (fst s)) (handshake_messages env wt)"
    by (simp_all add: Run_init_write_in_order)
next
  fix i e
  assume h: "i < length (handshake_messages env wt) \<and>
          (\<forall>j < i. nth_write_result env (masterConn wt) (handshake_messages env wt) j = None) \<and>
          nth_write_result env (masterConn wt) (handshake_messages env wt) i = Some e"
  then have h1: "i < length (handshake_messages env wt)"
    and h2: "\<forall>j < i. nth_write_result env (masterConn wt) (handshake_messages env wt) j = None"
    and h3: "nth_write_result env (masterConn wt) (handshake_messages env wt) i = Some e"
    by simp_all
  from write_in_order_first_failure [OF h1 h2 h3]
  show "fst (Run_init env wt)
          = Inl (errors_Wrapf
                   (errors_Wrapf (errors_Wrapf e ''failed to write to master'')
                      (snd (handshake_messages env wt ! i)))
                   ''failed to send initializing message'')"
    and "trace (snd (Run_init env wt))
          = trace wt @ map (\<lambda>s. MasterWrite (fst s)) (take (Suc i) (handshake_messages env wt))"
    by (simp_all add: Run_init_write_in_order)
qed

lemma json_Marshal_int_examples: "json_Marshal_int 1024 = bytes ''1024''" "json_Marshal_int 5 = bytes ''5''"
   "json_Marshal_int (- 1) = bytes ''-1''"
  by (simp_all add: json_Marshal_int_def decimal.simps bytes_def)

lemma Run_init_negative_reconnect: "Run_init example_env (example_wt\<lparr>reconnect := - 1\<rparr>)
   = (Inr (), example_wt\<lparr>reconnect := - 1, masterConn := 0, trace := [MasterWrite [0x33], MasterWrite (0x36 # bytes ''1024'')]\<rparr>)"
  by (simp add: Run_init_def sendInitializeMessage_def masterWrite_def example_env_def example_wt_def New_def json_Marshal_int_examples)

text \<open>
  C7 as stated fails: with the nonzero reconnect interval -1 the handshake succeeds and
  no set-reconnect message is written.
\<close>

theorem handshake_negative_reconnect_not_sent:
  "reconnect (example_wt\<lparr>reconnect := - 1\<rparr>) \<noteq> 0 \<and>
   fst (Run_init example_env (example_wt\<lparr>reconnect := - 1\<rparr>)) = Inr () \<and>
   MasterWrite (SetReconnect example_env # json_Marshal_int (- 1))
     \<notin> set (trace (snd (Run_init example_env (example_wt\<lparr>reconnect := - 1\<rparr>))))"
  by (simp add: Run_init_negative_reconnect) (simp add: example_env_def)

lemma example_handshake_messages:
  "handshake_messages example_env (example_wt\<lparr>reconnect := 5\<rparr>)
     = [([0x33], ''failed to send window title''),
        (0x36 # bytes ''1024'', ''failed to send buffer size''),
        (0x35 # bytes ''5'', ''failed to set reconnect'')]"
  by (simp add: handshake_messages_def example_env_def example_wt_def New_def json_Marshal_int_examples)

lemma example_write_results:
  "nth_write_result example_env 2 (handshake_messages example_env (example_wt\<lparr>reconnect := 5\<rparr>)) 0 = None"
  "nth_write_result example_env 2 (handshake_messages example_env (example_wt\<lparr>reconnect := 5\<rparr>)) 1 = None"
  "nth_write_result example_env 2 (handshake_messages example_env (example_wt\<lparr>reconnect := 5\<rparr>)) 2
     = Some (External ''closed'')"
  by (simp_all add: example_handshake_messages nth_write_result_def master_after_def)
     (simp_all add: example_env_def)

theorem handshake_in_order_witness:
  "(2 :: nat) < length (handshake_messages example_env (example_wt\<lparr>reconnect := 5\<rparr>)) \<and>
   nth_write_result example_env (masterConn (example_wt\<lparr>reconnect := 5\<rparr>))
      (handshake_messages example_env (example_wt\<lparr>reconnect := 5\<rparr>)) 0 = None \<and>
   nth_write_result example_env (masterConn (example_wt\<lparr>reconnect := 5\<rparr>))
      (handshake_messages example_env (example_wt\<lparr>reconnect := 5\<rparr>)) 1 = None \<and>
   nth_write_result example_env (masterConn (example_wt\<lparr>reconnect := 5\<rparr>))
      (handshake_messages example_env (example_wt\<lparr>reconnect := 5\<rparr>)) 2 = Some (External ''closed'') \<and>
   fst (Run_init example_env (example_wt\<lparr>reconnect := 5\<rparr>))
     = Inl (errors_Wrapf
              (errors_Wrapf (errors_Wrapf (External ''closed'') ''failed to write to master'')
                 ''failed to set reconnect'')
              ''failed to send initializing message'') \<and>
   trace (snd (Run_init example_env (example_wt\<lparr>reconnect := 5\<rparr>)))
     = [MasterWrite [0x33], MasterWrite (0x36 # bytes ''1024''), MasterWrite (0x35 # bytes ''5'')]"
proof -
  have m: "masterConn (example_wt\<lparr>reconnect := 5\<rparr>) = 2" "trace (example_wt\<lparr>reconnect := 5\<rparr>) = []"
    by (simp_all add: example_wt_def New_def)
  have h1: "(2 :: nat) < length (handshake_messages example_env (example_wt\<lparr>reconnect := 5\<rparr>))"
    by (simp add: example_handshake_messages)
  have h2: "\<forall>j < 2. nth_write_result example_env (masterConn (example_wt\<lparr>reconnect := 5\<rparr>))
               (handshake_messages example_env (example_wt\<lparr>reconnect := 5\<rparr>)) j = None"
  proof (intro allI impI)
    fix j :: nat assume "j < 2"
    then have "j = 0 \<or> j = 1" by auto
    then show "nth_write_result example_env (masterConn (example_wt\<lparr>reconnect := 5\<rparr>))
               (handshake_messages example_env (example_wt\<lparr>reconnect := 5\<rparr>)) j = None"
      using example_write_results(1,2) by (auto simp: m)
  qed
  have h3: "nth_write_result example_env (masterConn (example_wt\<lparr>reconnect := 5\<rparr>))
      (handshake_messages example_env (example_wt\<lparr>reconnect := 5\<rparr>)) 2 = Some (External ''closed'')"
    using example_write_results(3) by (simp add: m)
  from handshake_in_order [of example_env "example_wt\<lparr>reconnect := 5\<rparr>", THEN conjunct2,
         rule_format, of 2 "External ''closed''"] h1 h2 h3
  have "fst (Run_init example_env (example_wt\<lparr>reconnect := 5\<rparr>))
          = Inl (errors_Wrapf
                   (errors_Wrapf (errors_Wrapf (External ''closed'') ''failed to write to master'')
                      (snd (handshake_messages example_env (example_wt\<lparr>reconnect := 5\<rparr>) ! 2)))
                   ''failed to send initializing message'')"
    and "trace (snd (Run_init example_env (example_wt\<lparr>reconnect := 5\<rparr>)))
          = trace (example_wt\<lparr>reconnect := 5\<rparr>)
            @ map (\<lambda>s. MasterWrite (fst s))
                (take (Suc 2) (handshake_messages example_env (example_wt\<lparr>reconnect := 5\<rparr>)))"
    by simp_all
  then show ?thesis
    using h1 h3 example_write_results(1,2) by (simp add: example_handshake_messages m)
qed

section \<open>Decoding what \<open>EncodeToString\<close> produces\<close>

subsection \<open>The alphabet and its inverse table\<close>












subsection \<open>Packing and unpacking 24 bits\<close>






subsection \<open>The round trip\<close>





lemma Decode_loop_Nil: "Decode_loop room [] = Returns ([], None)"
  by (subst Decode_loop.simps) simp

lemma Decode_loop_step:
  assumes "src \<noteq> []" and "decodeQuantum [] src = (rest, out, None)" and "length out \<le> room"
  shows "Decode_loop room src =
           (case Decode_loop (room - length out) rest of
              Panics \<Rightarrow> Panics
            | Returns (out', err') \<Rightarrow> Returns (out @ out', err'))"
  using assms by (subst Decode_loop.simps) simp


lemma length_EncodeToString: "length (EncodeToString xs) = (length xs + 2) div 3 * 4"
proof (induction xs rule: EncodeToString.induct)
  case (1 a b c rest)
  have "(length (a # b # c # rest) + 2) div 3 = Suc ((length rest + 2) div 3)"
    by simp
  with 1 show ?case by (simp add: Let_def)
qed (simp_all add: Let_def)

section \<open>The back-to-front loop\<close>




lemma handleSlaveReadEvent_trace:
  "trace (snd (handleSlaveReadEvent env wt data)) = trace wt @ [MasterWrite (Output env # EncodeToString data)]"
  by (cases rule: masterWrite_cases [of env wt "Output env # EncodeToString data"])
     (simp_all add: handleSlaveReadEvent_def)









lemma maxChunkSize_pos: "1 \<le> B \<Longrightarrow> maxChunkSize B = (B - 1) div 4 * 3"
  by (cases "B = 1") (simp_all add: maxChunkSize_def go_quot_def)

text \<open>
  C4, as amended. For a buffer size of at least 1 and a chunk of at most \<open>maxChunkSize\<close>
  bytes, the message written for the chunk is the tag and \<open>4 * \<lceil>n / 3\<rceil>\<close> characters,
  and its length is at most the buffer size.
\<close>

theorem output_message_fits_buffer:
  assumes "1 \<le> bufferSize wt" and "int (length data) \<le> maxChunkSize (bufferSize wt)"
  shows "\<exists>m. trace (snd (handleSlaveReadEvent env wt data)) = trace wt @ [MasterWrite m]
       \<and> m = Output env # EncodeToString data
       \<and> length (EncodeToString data) = 4 * ((length data + 2) div 3)
       \<and> int (length m) \<le> bufferSize wt"
proof -
  have "int (length data) \<le> (bufferSize wt - 1) div 4 * 3"
    using assms by (simp add: maxChunkSize_pos)
  then have "int ((length data + 2) div 3) \<le> (bufferSize wt - 1) div 4"
    by (simp add: zdiv_int)
  then have "4 * int ((length data + 2) div 3) \<le> bufferSize wt - 1"
    by linarith
  then show ?thesis
    by (simp add: handleSlaveReadEvent_trace length_EncodeToString)
qed

theorem output_message_fits_buffer_witness:
  "1 \<le> bufferSize example_wt \<and>
   int (length (replicate 765 (0 :: byte))) \<le> maxChunkSize (bufferSize example_wt) \<and>
   (\<exists>m. trace (snd (handleSlaveReadEvent example_env example_wt (replicate 765 0)))
          = trace example_wt @ [MasterWrite m]
        \<and> length m = 1021 \<and> int (length m) \<le> bufferSize example_wt)"
proof -
  have b: "bufferSize example_wt = 1024" by (simp add: example_wt_def New_def)
  have h1: "1 \<le> bufferSize example_wt" by (simp add: b)
  have h2: "int (length (replicate 765 (0 :: byte))) \<le> maxChunkSize (bufferSize example_wt)"
    by (simp add: b maxChunkSize_def go_quot_def)
  from output_message_fits_buffer [OF h1 h2, of example_env] obtain m where
    m: "trace (snd (handleSlaveReadEvent example_env example_wt (replicate 765 0)))
          = trace example_wt @ [MasterWrite m]"
       "m = Output example_env # EncodeToString (replicate 765 0)"
       "length (EncodeToString (replicate 765 (0 :: byte))) = 4 * ((length (replicate 765 (0 :: byte)) + 2) div 3)"
       "int (length m) \<le> bufferSize example_wt"
    by (elim exE conjE) (rule that)
  from m(2) m(3) have "length m = 1021" by simp
  with h1 h2 m(1) m(4) show ?thesis by blast
qed

text \<open>
  C4 as stated fails for the buffer size 0: the division truncates towards zero, so the
  chunk size is 0, the loop starts without a panic, reads an empty chunk, and the message
  is the one tag byte.
\<close>

theorem output_message_exceeds_buffer_size_0:
  "int (length ([] :: byte list)) \<le> maxChunkSize (bufferSize (example_wt\<lparr>bufferSize := 0\<rparr>)) \<and>
   trace (snd (handleSlaveReadEvent example_env (example_wt\<lparr>bufferSize := 0\<rparr>) []))
     = trace (example_wt\<lparr>bufferSize := 0\<rparr>) @ [MasterWrite [Output example_env]] \<and>
   \<not> int (length [Output example_env]) \<le> bufferSize (example_wt\<lparr>bufferSize := 0\<rparr>) \<and>
   back_to_front example_env (example_wt\<lparr>bufferSize := 0\<rparr>) [Inr []]
     = Returns (slave_loop example_env (example_wt\<lparr>bufferSize := 0\<rparr>) [Inr []])"
  by (simp add: maxChunkSize_def go_quot_def handleSlaveReadEvent_trace back_to_front_def
        del: slave_loop.simps)

section \<open>Decoding a data message into its buffer\<close>

lemma length_quantum_bytes: "length (quantum_bytes dbuf dlen) = min (dlen - 1) 3"
  by (simp add: quantum_bytes_def Let_def)

lemma decodeQuantum_output:
  "length dbuf \<le> 3 \<Longrightarrow>
   snd (decodeQuantum dbuf src) = (out, err) \<Longrightarrow>
   out = [] \<or> (length out \<le> 3 \<and> length (fst (decodeQuantum dbuf src)) + 4 \<le> length src + length dbuf)"
proof (induction dbuf src rule: decodeQuantum.induct)
  case (1 dbuf)
  then show ?case by simp
next
  case (2 dbuf c src)
  have dw: "length (dropWhile is_newline src) \<le> length src"
    by (rule length_dropWhile_le)
  have dw2: "\<And>x xs. dropWhile is_newline src = x # xs \<Longrightarrow> Suc (length (dropWhile is_newline xs)) \<le> length src"
  proof -
    fix x xs assume a: "dropWhile is_newline src = x # xs"
    have "length (dropWhile is_newline xs) \<le> length xs" by (rule length_dropWhile_le)
    moreover have "Suc (length xs) \<le> length src" using dw a by simp
    ultimately show "Suc (length (dropWhile is_newline xs)) \<le> length src" by simp
  qed
  show ?case
  proof (cases "decodeMap c \<noteq> 0xFF")
    case True
    show ?thesis
    proof (cases "length dbuf = 3")
      case full: True
      with True "2.prems" show ?thesis by (auto simp: Let_def length_quantum_bytes)
    next
      case False
      with "2.prems" have len: "length (dbuf @ [decodeMap c]) \<le> 3" by simp
      have eq: "decodeQuantum dbuf (c # src) = decodeQuantum (dbuf @ [decodeMap c]) src"
        using True False by (simp add: Let_def)
      from "2.IH"(1) [OF refl True False len] "2.prems"(2) eq
      show ?thesis by auto
    qed
  next
    case noval: False
    show ?thesis
    proof (cases "is_newline c")
      case True
      have eq: "decodeQuantum dbuf (c # src) = decodeQuantum dbuf src"
        using True noval by (simp add: Let_def)
      from "2.IH"(2) [OF refl _ True "2.prems"(1)] noval "2.prems"(2) eq
      show ?thesis by auto
    next
      case False
      show ?thesis
      proof (cases "c \<noteq> padChar \<or> length dbuf < 2")
        case True
        with noval False "2.prems" show ?thesis by (auto simp: Let_def)
      next
        case pad: False
        show ?thesis
        proof (cases "length dbuf = 2")
          case True
          with noval False pad "2.prems" dw dw2 show ?thesis
            by (auto simp: Let_def finish_quantum_def length_quantum_bytes split: list.splits if_splits)
        next
          case three: False
          with pad "2.prems"(1) have "length dbuf = 3" by simp
          with noval False pad "2.prems" dw show ?thesis
            by (auto simp: Let_def finish_quantum_def length_quantum_bytes)
        qed
      qed
    qed
  qed
qed

lemma Decode_loop_bound:
  "3 * (length src div 4) \<le> room \<Longrightarrow>
   \<exists>out err. Decode_loop room src = Returns (out, err) \<and> length out \<le> 3 * (length src div 4)"
proof (induction src arbitrary: room rule: length_induct)
  case (1 src)
  show ?case
  proof (cases "src = []")
    case True
    then show ?thesis by (simp add: Decode_loop_Nil)
  next
    case False
    obtain rest out err where q: "decodeQuantum [] src = (rest, out, err)"
      by (cases "decodeQuantum [] src") auto
    have shorter: "length rest < length src"
      using decodeQuantum_shorter [OF False, of "[]"] q by simp
    have outb: "out = [] \<or> (length out \<le> 3 \<and> length rest + 4 \<le> length src)"
      using decodeQuantum_output [of "[]" src out err] q by simp
    then have fits: "length out + 3 * (length rest div 4) \<le> 3 * (length src div 4)"
    proof
      assume "out = []"
      moreover have "length rest div 4 \<le> length src div 4"
        using shorter by (simp add: div_le_mono)
      ultimately show ?thesis by simp
    next
      assume a: "length out \<le> 3 \<and> length rest + 4 \<le> length src"
      then have "(length rest + 4) div 4 \<le> length src div 4"
        by (simp add: div_le_mono)
      then have "Suc (length rest div 4) \<le> length src div 4"
        by simp
      with a show ?thesis by linarith
    qed
    then have room: "length out \<le> room" "3 * (length rest div 4) \<le> room - length out"
      using "1.prems" by simp_all
    show ?thesis
    proof (cases err)
      case (Some e)
      have "Decode_loop room src = Returns (out, Some e)"
        using False q Some room(1) by (subst Decode_loop.simps) simp
      with fits show ?thesis by simp
    next
      case None
      from "1.IH" shorter room(2) obtain out' err' where
        r: "Decode_loop (room - length out) rest = Returns (out', err')"
           "length out' \<le> 3 * (length rest div 4)"
        by (metis (no_types, lifting))
      have "Decode_loop room src = Returns (out @ out', err')"
        using Decode_loop_step [OF False _ room(1), of rest] q None r(1) by simp
      with fits r(2) show ?thesis by simp
    qed
  qed
qed

lemma StdEncoding_Decode_bound:
  assumes "3 * (length src div 4) \<le> length dst"
  shows "\<exists>n dst' err. StdEncoding_Decode dst src = Returns (n, dst', err)
           \<and> 0 \<le> n \<and> n \<le> 3 * (int (length src) div 4) \<and> length dst' = length dst"
proof -
  from Decode_loop_bound [OF assms] obtain out err where
    r: "Decode_loop (length dst) src = Returns (out, err)" "length out \<le> 3 * (length src div 4)"
    by (elim exE conjE) (rule that)
  have "int (length out) \<le> int (3 * (length src div 4))"
    using r(2) by (simp only: of_nat_le_iff)
  then have "int (length out) \<le> 3 * (int (length src) div 4)"
    by (simp add: zdiv_int)
  moreover have "length (out @ drop (length out) dst) = length dst"
    using r(2) assms by simp
  ultimately show ?thesis
    using r(1) by (simp add: StdEncoding_Decode_def)
qed

lemma NullCodec_Decode_count:
  assumes "length src \<le> length dst"
  shows "NullCodec_Decode dst src = Returns (int (length src), src @ drop (length src) dst, None)"
  using assms by (simp add: NullCodec_Decode_def Let_def min_def)

text \<open>
  C10. For a data message of length \<open>L \<ge> 2\<close> with writing permitted and the decoder
  \<open>NullCodec\<close> or \<open>StdEncoding\<close>, \<open>Decode\<close> into the buffer of \<open>L\<close> bytes does not
  panic and returns a count \<open>n\<close> with \<open>0 \<le> n \<le> L\<close>: \<open>L - 1\<close> and no error for
  \<open>NullCodec\<close>, at most \<open>3 * ((L - 1) div 4)\<close> for \<open>StdEncoding\<close>, whether or not it also
  returns an error. So \<open>decodedBuffer[:n]\<close> is in bounds and the handler does not panic.
\<close>

theorem decode_count_within_buffer:
  assumes "permitWrite wt" and "2 \<le> length data" and "hd data = Input env"
    and "decoder wt = NullCodec \<or> decoder wt = StdEncoding"
  shows "\<exists>n dst err.
           Decode (decoder wt) (replicate (length data) 0) (tl data) = Returns (n, dst, err)
           \<and> 0 \<le> n \<and> n \<le> int (length data) \<and> slice_to dst n \<noteq> Panics
           \<and> (decoder wt = NullCodec \<longrightarrow> n = int (length data) - 1 \<and> err = None)
           \<and> (decoder wt = StdEncoding \<longrightarrow> n \<le> 3 * ((int (length data) - 1) div 4))
           \<and> handleMasterReadEvent env wt data \<noteq> Panics"
proof -
  let ?dst = "replicate (length data) (0 :: byte)"
  have len: "length (tl data) = length data - 1" "int (length (tl data)) = int (length data) - 1"
    using assms(2) by simp_all
  have not_short: "\<not> length data \<le> 1" "data \<noteq> []" using assms(2) by auto
  have key: "\<exists>n dst err.
           Decode (decoder wt) ?dst (tl data) = Returns (n, dst, err)
           \<and> 0 \<le> n \<and> n \<le> int (length data) \<and> length dst = length data
           \<and> (decoder wt = NullCodec \<longrightarrow> n = int (length data) - 1 \<and> err = None)
           \<and> (decoder wt = StdEncoding \<longrightarrow> n \<le> 3 * ((int (length data) - 1) div 4))"
    using assms(4)
  proof
    assume null: "decoder wt = NullCodec"
    have "length (tl data) \<le> length ?dst" using len by simp
    from NullCodec_Decode_count [OF this] null len assms(2) show ?thesis
      by auto
  next
    assume std: "decoder wt = StdEncoding"
    have "3 * (length (tl data) div 4) \<le> length ?dst" using len by simp
    from StdEncoding_Decode_bound [OF this] obtain n dst' err where
      r: "StdEncoding_Decode ?dst (tl data) = Returns (n, dst', err)" "0 \<le> n"
         "n \<le> 3 * (int (length (tl data)) div 4)" "length dst' = length ?dst"
      by (elim exE conjE) (rule that)
    have "n \<le> int (length data)" using r(3) len(2) by linarith
    with r std len show ?thesis by simp
  qed
  then obtain n dst err where
    d: "Decode (decoder wt) ?dst (tl data) = Returns (n, dst, err)" "0 \<le> n" "n \<le> int (length data)"
       "length dst = length data"
       "decoder wt = NullCodec \<longrightarrow> n = int (length data) - 1 \<and> err = None"
       "decoder wt = StdEncoding \<longrightarrow> n \<le> 3 * ((int (length data) - 1) div 4)"
    by (elim exE conjE) (rule that)
  have sl: "slice_to dst n = Returns (take (nat n) dst)"
    using d(2,3,4) by (simp add: slice_to_def)
  have "handleMasterReadEvent env wt data \<noteq> Panics"
    using assms(1,3) not_short d(1) sl
    by (simp add: handleMasterReadEvent_def Let_def split: option.splits prod.splits)
  with d sl show ?thesis by simp
qed

theorem decode_count_within_buffer_witness:
  "permitWrite (example_wt\<lparr>permitWrite := True, decoder := StdEncoding\<rparr>) \<and>
   2 \<le> length (Input example_env # bytes ''bHM='') \<and>
   hd (Input example_env # bytes ''bHM='') = Input example_env \<and>
   decoder (example_wt\<lparr>permitWrite := True, decoder := StdEncoding\<rparr>) = StdEncoding \<and>
   handleMasterReadEvent example_env (example_wt\<lparr>permitWrite := True, decoder := StdEncoding\<rparr>)
     (Input example_env # bytes ''bHM='') \<noteq> Panics"
  using decode_count_within_buffer
    [of "example_wt\<lparr>permitWrite := True, decoder := StdEncoding\<rparr>"
        "Input example_env # bytes ''bHM=''" example_env]
  by (auto simp: bytes_def)

end
